theory Spec2Isabelle
  imports Main "HOL-Library.Sublist"
begin

section \<open>The prompt formatter of PromptHandler.cpp\<close>

text \<open>
  The source file \<^verbatim>\<open>app/src/main/cpp/PromptHandler.cpp\<close> formats a user message
  in the Microsoft Phi chat format. A \<^verbatim>\<open>std::string\<close> is a list of bytes, so it is
  a HOL \<open>string\<close>; the class is a record with its one data member; the member
  function takes the object and returns the result together with the updated object.
\<close>

subsection \<open>The delimiter constants\<close>

text \<open>
  \<^verbatim>\<open>constexpr const std::string_view c_system_prompt = "<|system|>\nYou are ...<|end|>\n";\<close>
  and its three siblings. The escape \<^verbatim>\<open>\n\<close> of the C++ literals is the byte 0x0A.
\<close>

definition c_system_prompt :: string where
  "c_system_prompt =
     ''<|system|>\<newline>You are a helpful assistant. Be helpful but brief.<|end|>\<newline>''"

definition c_prompt_prefix :: string where
  "c_prompt_prefix = ''<|user|>''"

definition c_end_of_prompt :: string where
  "c_end_of_prompt = ''\<newline><|end|>\<newline>''"

definition c_assistant_header :: string where
  "c_assistant_header = ''<|assistant|>\<newline>''"

text \<open>
  Three of the operands of the concatenations are written \<^verbatim>\<open>c_xxx.data()\<close>: a
  \<^verbatim>\<open>const char*\<close>, of which \<^verbatim>\<open>operator+\<close> appends the bytes before the first
  NUL byte. The first operand \<^verbatim>\<open>std::string(c_xxx)\<close> and the \<^verbatim>\<open>std::string\<close>
  argument \<^verbatim>\<open>user_prompt\<close> are taken whole, NUL bytes included.
\<close>

definition data_cstr :: "string \<Rightarrow> string" where
  "data_cstr sv = takeWhile (\<lambda>c. c \<noteq> CHR 0x00) sv"

subsection \<open>The class and its member function\<close>

record PromptHandler =
  m_is_first_prompt :: bool

text \<open>The constructor \<^verbatim>\<open>PromptHandler::PromptHandler() : m_is_first_prompt(true)\<close>.\<close>

definition PromptHandler_new :: PromptHandler where
  "PromptHandler_new = \<lparr>m_is_first_prompt = True\<rparr>"

text \<open>
  \<^verbatim>\<open>std::string PromptHandler::GetPromptWithTag(const std::string& user_prompt)\<close>:
  the pair of the returned string and the object after the call.
\<close>

definition GetPromptWithTag :: "PromptHandler \<Rightarrow> string \<Rightarrow> string \<times> PromptHandler" where
  "GetPromptWithTag this user_prompt =
     (if m_is_first_prompt this
      then (c_system_prompt @ data_cstr c_prompt_prefix @ user_prompt
              @ data_cstr c_end_of_prompt @ data_cstr c_assistant_header,
            this\<lparr>m_is_first_prompt := False\<rparr>)
      else (c_prompt_prefix @ user_prompt
              @ data_cstr c_end_of_prompt @ data_cstr c_assistant_header,
            this))"

text \<open>
  A caller's session: the calls \<^verbatim>\<open>GetPromptWithTag(t)\<close> for the texts \<open>t\<close> of a list,
  in order, on one object. The result is the list of the returned strings and the
  object after the last call.
\<close>

fun calls :: "PromptHandler \<Rightarrow> string list \<Rightarrow> string list \<times> PromptHandler" where
  "calls this [] = ([], this)"
| "calls this (t # ts) =
     (case GetPromptWithTag this t of
        (out, this') \<Rightarrow> (case calls this' ts of (outs, this'') \<Rightarrow> (out # outs, this'')))"

section \<open>Basic facts\<close>

lemma data_cstr_prompt_prefix: "data_cstr c_prompt_prefix = c_prompt_prefix"
  by (simp add: data_cstr_def c_prompt_prefix_def)

lemma data_cstr_end_of_prompt: "data_cstr c_end_of_prompt = c_end_of_prompt"
  by (simp add: data_cstr_def c_end_of_prompt_def)

lemma data_cstr_assistant_header: "data_cstr c_assistant_header = c_assistant_header"
  by (simp add: data_cstr_def c_assistant_header_def)

lemmas data_cstr_consts =
  data_cstr_prompt_prefix data_cstr_end_of_prompt data_cstr_assistant_header

lemma GetPromptWithTag_first:
  "m_is_first_prompt this \<Longrightarrow>
     GetPromptWithTag this user_prompt =
       (c_system_prompt @ c_prompt_prefix @ user_prompt @ c_end_of_prompt @ c_assistant_header,
        this\<lparr>m_is_first_prompt := False\<rparr>)"
  by (simp add: GetPromptWithTag_def data_cstr_consts)

lemma GetPromptWithTag_later:
  "\<not> m_is_first_prompt this \<Longrightarrow>
     GetPromptWithTag this user_prompt =
       (c_prompt_prefix @ user_prompt @ c_end_of_prompt @ c_assistant_header, this)"
  by (simp add: GetPromptWithTag_def data_cstr_consts)

lemma GetPromptWithTag_flag_after:
  "\<not> m_is_first_prompt (snd (GetPromptWithTag this user_prompt))"
  by (simp add: GetPromptWithTag_def)

lemma GetPromptWithTag_new:
  "GetPromptWithTag PromptHandler_new user_prompt =
     (c_system_prompt @ c_prompt_prefix @ user_prompt @ c_end_of_prompt @ c_assistant_header,
      \<lparr>m_is_first_prompt = False\<rparr>)"
  by (simp add: GetPromptWithTag_first PromptHandler_new_def)

subsection \<open>Sessions\<close>

lemma calls_length: "length (fst (calls this ts)) = length ts"
proof (induction ts arbitrary: this)
  case Nil
  show ?case by simp
next
  case (Cons t ts)
  obtain out this' where step: "GetPromptWithTag this t = (out, this')"
    by (cases "GetPromptWithTag this t")
  obtain outs this'' where rest: "calls this' ts = (outs, this'')"
    by (cases "calls this' ts")
  from Cons.IH [of this'] rest have "length outs = length ts" by simp
  with step rest show ?case by simp
qed

lemma calls_later:
  "\<not> m_is_first_prompt this \<Longrightarrow>
     calls this ts =
       (map (\<lambda>t. c_prompt_prefix @ t @ c_end_of_prompt @ c_assistant_header) ts, this)"
  by (induction ts arbitrary: this) (auto simp: GetPromptWithTag_later)

lemma calls_flag:
  "m_is_first_prompt (snd (calls this ts)) \<longleftrightarrow> m_is_first_prompt this \<and> ts = []"
proof (cases ts)
  case Nil
  then show ?thesis by simp
next
  case (Cons t us)
  obtain out this' where step: "GetPromptWithTag this t = (out, this')"
    by (cases "GetPromptWithTag this t")
  have "\<not> m_is_first_prompt this'"
    using GetPromptWithTag_flag_after [of this t] step by simp
  then have "calls this' us =
      (map (\<lambda>t. c_prompt_prefix @ t @ c_end_of_prompt @ c_assistant_header) us, this')"
    by (rule calls_later)
  with Cons step \<open>\<not> m_is_first_prompt this'\<close> show ?thesis by simp
qed

subsection \<open>Where the system preamble can occur in a later prompt\<close>

text \<open>
  The preamble cannot start inside the user marker, and of the bytes after the user's
  text it can only use the first one, the newline that opens \<open>c_end_of_prompt\<close>.
\<close>

lemma sublist_preamble_strip_front:
  "sublist c_system_prompt (c_prompt_prefix @ xs) \<longleftrightarrow> sublist c_system_prompt xs"
  by (simp add: c_system_prompt_def c_prompt_prefix_def sublist_Cons_right)

lemma sublist_rev_preamble_strip:
  "sublist (rev c_system_prompt) (rev (c_end_of_prompt @ c_assistant_header) @ ys)
     \<longleftrightarrow> sublist (rev c_system_prompt) (CHR ''\<newline>'' # ys)"
  by (simp add: c_system_prompt_def c_end_of_prompt_def c_assistant_header_def
        sublist_Cons_right)

lemma sublist_preamble_strip_back:
  "sublist c_system_prompt (xs @ c_end_of_prompt @ c_assistant_header)
     \<longleftrightarrow> sublist c_system_prompt (xs @ ''\<newline>'')"
proof -
  have "sublist c_system_prompt (xs @ c_end_of_prompt @ c_assistant_header)
      \<longleftrightarrow> sublist (rev c_system_prompt) (rev (xs @ c_end_of_prompt @ c_assistant_header))"
    by (simp only: sublist_rev)
  also have "\<dots> \<longleftrightarrow>
      sublist (rev c_system_prompt) (rev (c_end_of_prompt @ c_assistant_header) @ rev xs)"
    by (simp only: rev_append append_assoc)
  also have "\<dots> \<longleftrightarrow> sublist (rev c_system_prompt) (CHR ''\<newline>'' # rev xs)"
    by (rule sublist_rev_preamble_strip)
  also have "\<dots> \<longleftrightarrow> sublist (rev c_system_prompt) (rev (xs @ ''\<newline>''))"
    by simp
  also have "\<dots> \<longleftrightarrow> sublist c_system_prompt (xs @ ''\<newline>'')"
    by (simp only: sublist_rev)
  finally show ?thesis .
qed

lemma sublist_preamble_later:
  "sublist c_system_prompt (c_prompt_prefix @ s @ c_end_of_prompt @ c_assistant_header)
     \<longleftrightarrow> sublist c_system_prompt (s @ ''\<newline>'')"
  by (simp only: sublist_preamble_strip_front sublist_preamble_strip_back)

lemma not_prefix_preamble_later:
  "\<not> prefix c_system_prompt (c_prompt_prefix @ xs)"
  by (simp add: c_system_prompt_def c_prompt_prefix_def)

section \<open>The claims\<close>

text \<open>
  C1. For every string \<open>user_text\<close>: a call of \<open>GetPromptWithTag\<close> on an object whose
  first-prompt flag is true returns the system preamble, the user marker, the text, the
  end marker and the assistant header, concatenated in this order, and sets the flag to
  false; a call on an object whose flag is false returns the same without the preamble
  and leaves the object as it is.
\<close>

theorem GetPromptWithTag_branches:
  "(m_is_first_prompt this \<longrightarrow>
      GetPromptWithTag this user_text =
        (c_system_prompt @ c_prompt_prefix @ user_text @ c_end_of_prompt @ c_assistant_header,
         this\<lparr>m_is_first_prompt := False\<rparr>)) \<and>
   (\<not> m_is_first_prompt this \<longrightarrow>
      GetPromptWithTag this user_text =
        (c_prompt_prefix @ user_text @ c_end_of_prompt @ c_assistant_header, this))"
  by (simp add: GetPromptWithTag_first GetPromptWithTag_later)

theorem GetPromptWithTag_branches_witness:
  "m_is_first_prompt \<lparr>m_is_first_prompt = True\<rparr> \<and>
   GetPromptWithTag \<lparr>m_is_first_prompt = True\<rparr> ''Hi'' =
     (c_system_prompt @ c_prompt_prefix @ ''Hi'' @ c_end_of_prompt @ c_assistant_header,
      \<lparr>m_is_first_prompt = False\<rparr>) \<and>
   \<not> m_is_first_prompt \<lparr>m_is_first_prompt = False\<rparr> \<and>
   GetPromptWithTag \<lparr>m_is_first_prompt = False\<rparr> ''Hi'' =
     (c_prompt_prefix @ ''Hi'' @ c_end_of_prompt @ c_assistant_header,
      \<lparr>m_is_first_prompt = False\<rparr>)"
  using GetPromptWithTag_branches [of "\<lparr>m_is_first_prompt = True\<rparr>" "''Hi''"]
    GetPromptWithTag_branches [of "\<lparr>m_is_first_prompt = False\<rparr>" "''Hi''"]
  by simp

text \<open>
  C2. On a freshly constructed object, \<open>GetPromptWithTag("Hello")\<close> returns the
  preamble followed by the tagged \<open>Hello\<close>, byte for byte as the specification spells
  it, and a following \<open>GetPromptWithTag("How are you?")\<close> on the same object returns
  the tagged text alone.
\<close>

theorem hello_scenario:
  "fst (GetPromptWithTag PromptHandler_new ''Hello'') =
     ''<|system|>\<newline>You are a helpful assistant. Be helpful but brief.<|end|>\<newline><|user|>Hello\<newline><|end|>\<newline><|assistant|>\<newline>'' \<and>
   fst (GetPromptWithTag (snd (GetPromptWithTag PromptHandler_new ''Hello'')) ''How are you?'') =
     ''<|user|>How are you?\<newline><|end|>\<newline><|assistant|>\<newline>''"
  by (simp add: GetPromptWithTag_def PromptHandler_new_def data_cstr_def
        c_system_prompt_def c_prompt_prefix_def c_end_of_prompt_def c_assistant_header_def)

text \<open>
  C3. In every state reached from a fresh object by a finite sequence of calls of
  \<open>GetPromptWithTag\<close>, the flag \<open>m_is_first_prompt\<close> is true if and only if the number
  of calls made is zero. Every call of the sequence completes: there are as many
  returned strings as calls.
\<close>

theorem first_prompt_flag_iff_no_calls:
  "(m_is_first_prompt (snd (calls PromptHandler_new ts)) \<longleftrightarrow> length ts = 0) \<and>
   length (fst (calls PromptHandler_new ts)) = length ts"
  by (simp add: calls_flag calls_length PromptHandler_new_def)

text \<open>
  C4. The flag goes one way. From an object whose flag is false, no sequence of calls
  makes it true again; so in a session on a fresh object the first call returns the
  prompt with the preamble, every later call returns the prompt of the non-first
  branch, and the flag is false at the end.
\<close>

theorem flag_never_reverts:
  "(\<not> m_is_first_prompt this \<longrightarrow> \<not> m_is_first_prompt (snd (calls this ts))) \<and>
   calls PromptHandler_new (t # ts) =
     (fst (GetPromptWithTag PromptHandler_new t) #
        map (\<lambda>u. c_prompt_prefix @ u @ c_end_of_prompt @ c_assistant_header) ts,
      \<lparr>m_is_first_prompt = False\<rparr>)"
  by (simp add: calls_flag GetPromptWithTag_new calls_later)

theorem flag_never_reverts_witness:
  "\<not> m_is_first_prompt \<lparr>m_is_first_prompt = False\<rparr> \<and>
   \<not> m_is_first_prompt (snd (calls \<lparr>m_is_first_prompt = False\<rparr> [''a'', ''b''])) \<and>
   calls PromptHandler_new [''x'', ''a'', ''b''] =
     ([c_system_prompt @ ''<|user|>x\<newline><|end|>\<newline><|assistant|>\<newline>'',
       ''<|user|>a\<newline><|end|>\<newline><|assistant|>\<newline>'',
       ''<|user|>b\<newline><|end|>\<newline><|assistant|>\<newline>''],
      \<lparr>m_is_first_prompt = False\<rparr>)"
  using flag_never_reverts [of "\<lparr>m_is_first_prompt = False\<rparr>" "[''a'', ''b'']" "''x''"]
  by (simp add: GetPromptWithTag_new c_prompt_prefix_def c_end_of_prompt_def
        c_assistant_header_def)

text \<open>
  C5 (as stated, refuted). The claim says that the second call's result never contains
  the system preamble. The user's text is inserted as it is, so a text that contains the
  preamble puts it into the result: here the second call is made with the preamble
  itself as the text.
\<close>

theorem second_call_contains_preamble_counterexample:
  "sublist c_system_prompt
     (fst (GetPromptWithTag (snd (GetPromptWithTag PromptHandler_new ''Hi''))
        ''<|system|>\<newline>You are a helpful assistant. Be helpful but brief.<|end|>\<newline>''))"
proof -
  have lit: "''<|system|>\<newline>You are a helpful assistant. Be helpful but brief.<|end|>\<newline>''
      = c_system_prompt"
    by (simp add: c_system_prompt_def)
  have "sublist c_system_prompt
      (c_prompt_prefix @ c_system_prompt @ c_end_of_prompt @ c_assistant_header)"
    by (rule sublist_appendI)
  then show ?thesis
    unfolding lit by (simp add: GetPromptWithTag_new GetPromptWithTag_later)
qed

text \<open>
  C5 (amended). For all strings \<open>s1\<close> and \<open>s2\<close>: after one call with \<open>s1\<close> on a fresh
  object, the second call with \<open>s2\<close> returns a string that begins with the user marker
  \<open><|user|>\<close>, hence does not begin with the system preamble, and ends with the
  assistant header; it contains the system preamble exactly when \<open>s2\<close> followed by one
  newline contains it, so the preamble is absent unless the user's text brings it in.
\<close>

theorem second_call_shape:
  "prefix c_prompt_prefix
     (fst (GetPromptWithTag (snd (GetPromptWithTag PromptHandler_new s1)) s2)) \<and>
   suffix c_assistant_header
     (fst (GetPromptWithTag (snd (GetPromptWithTag PromptHandler_new s1)) s2)) \<and>
   \<not> prefix c_system_prompt
     (fst (GetPromptWithTag (snd (GetPromptWithTag PromptHandler_new s1)) s2)) \<and>
   (sublist c_system_prompt
      (fst (GetPromptWithTag (snd (GetPromptWithTag PromptHandler_new s1)) s2))
      \<longleftrightarrow> sublist c_system_prompt (s2 @ ''\<newline>''))"
proof -
  have out: "fst (GetPromptWithTag (snd (GetPromptWithTag PromptHandler_new s1)) s2) =
      c_prompt_prefix @ s2 @ c_end_of_prompt @ c_assistant_header"
    by (simp add: GetPromptWithTag_new GetPromptWithTag_later)
  have "suffix c_assistant_header
      ((c_prompt_prefix @ s2 @ c_end_of_prompt) @ c_assistant_header)"
    by (rule suffixI) (rule refl)
  then have ends: "suffix c_assistant_header
      (c_prompt_prefix @ s2 @ c_end_of_prompt @ c_assistant_header)"
    by simp
  show ?thesis
    unfolding out
    using ends by (simp add: not_prefix_preamble_later sublist_preamble_later)
qed

text \<open>
  C6. For every string \<open>user_text\<close> and either value of the flag, the returned string
  is the preamble (first call) or nothing (later call), then the user marker, then
  \<open>user_text\<close> itself, then the end marker and the assistant header. So the user marker
  is followed at once by the whole of \<open>user_text\<close> and that by the end marker, nothing
  of the text is dropped or rewritten, and every substring \<open>d\<close> of the text, a
  delimiter such as \<open><|end|>\<close> included, is a substring of the result.
\<close>

theorem user_text_verbatim:
  "(\<exists>pre. (pre = [] \<or> pre = c_system_prompt) \<and>
      fst (GetPromptWithTag this user_text) =
        pre @ c_prompt_prefix @ user_text @ c_end_of_prompt @ c_assistant_header) \<and>
   sublist (c_prompt_prefix @ user_text @ c_end_of_prompt)
     (fst (GetPromptWithTag this user_text)) \<and>
   (sublist d user_text \<longrightarrow> sublist d (fst (GetPromptWithTag this user_text)))"
proof (cases "m_is_first_prompt this")
  case True
  have out: "fst (GetPromptWithTag this user_text) =
      c_system_prompt @ c_prompt_prefix @ user_text @ c_end_of_prompt @ c_assistant_header"
    by (simp add: GetPromptWithTag_first True)
  have mid: "sublist (c_prompt_prefix @ user_text @ c_end_of_prompt)
      (c_system_prompt @ (c_prompt_prefix @ user_text @ c_end_of_prompt) @ c_assistant_header)"
    by (rule sublist_appendI)
  have inside: "sublist user_text
      ((c_system_prompt @ c_prompt_prefix) @ user_text @ (c_end_of_prompt @ c_assistant_header))"
    by (rule sublist_appendI)
  have "sublist d user_text \<longrightarrow> sublist d
      ((c_system_prompt @ c_prompt_prefix) @ user_text @ (c_end_of_prompt @ c_assistant_header))"
    using inside by (blast intro: sublist_order.order_trans)
  with mid show ?thesis
    unfolding out by simp
next
  case False
  have out: "fst (GetPromptWithTag this user_text) =
      c_prompt_prefix @ user_text @ c_end_of_prompt @ c_assistant_header"
    by (simp add: GetPromptWithTag_later False)
  have mid: "sublist (c_prompt_prefix @ user_text @ c_end_of_prompt)
      ((c_prompt_prefix @ user_text @ c_end_of_prompt) @ c_assistant_header)"
    by (rule sublist_append_rightI)
  have inside: "sublist user_text
      (c_prompt_prefix @ user_text @ (c_end_of_prompt @ c_assistant_header))"
    by (rule sublist_appendI)
  have "sublist d user_text \<longrightarrow> sublist d
      (c_prompt_prefix @ user_text @ (c_end_of_prompt @ c_assistant_header))"
    using inside by (blast intro: sublist_order.order_trans)
  with mid show ?thesis
    unfolding out by simp
qed

theorem user_text_verbatim_witness:
  "sublist ''<|end|>'' ''a<|end|>b'' \<and>
   sublist ''<|end|>'' (fst (GetPromptWithTag PromptHandler_new ''a<|end|>b'')) \<and>
   sublist (c_prompt_prefix @ ''a<|end|>b'' @ c_end_of_prompt)
     (fst (GetPromptWithTag PromptHandler_new ''a<|end|>b''))"
proof -
  have sub: "sublist ''<|end|>'' ''a<|end|>b''"
    by (simp add: sublist_Cons_right)
  from sub user_text_verbatim [of PromptHandler_new "''a<|end|>b''" "''<|end|>''"]
  show ?thesis by blast
qed

text \<open>
  C7. The empty string is an input like any other. On an object whose flag is true
  the call with the empty string returns the preamble, the user marker, the end marker
  and the assistant header; on an object whose flag is false it returns the user
  marker, the end marker and the assistant header. In both the user marker is followed
  at once by the end marker.
\<close>

theorem empty_user_text:
  "(m_is_first_prompt this \<longrightarrow>
      fst (GetPromptWithTag this '''') =
        c_system_prompt @ c_prompt_prefix @ c_end_of_prompt @ c_assistant_header) \<and>
   (\<not> m_is_first_prompt this \<longrightarrow>
      fst (GetPromptWithTag this '''') =
        c_prompt_prefix @ c_end_of_prompt @ c_assistant_header) \<and>
   sublist (c_prompt_prefix @ c_end_of_prompt) (fst (GetPromptWithTag this ''''))"
proof -
  have mid1: "sublist (c_prompt_prefix @ c_end_of_prompt)
      (c_system_prompt @ (c_prompt_prefix @ c_end_of_prompt) @ c_assistant_header)"
    by (rule sublist_appendI)
  have mid2: "sublist (c_prompt_prefix @ c_end_of_prompt)
      ((c_prompt_prefix @ c_end_of_prompt) @ c_assistant_header)"
    by (rule sublist_append_rightI)
  show ?thesis
  proof (cases "m_is_first_prompt this")
    case True
    with mid1 show ?thesis by (simp add: GetPromptWithTag_first)
  next
    case False
    with mid2 show ?thesis by (simp add: GetPromptWithTag_later)
  qed
qed

theorem empty_user_text_witness:
  "m_is_first_prompt PromptHandler_new \<and>
   fst (GetPromptWithTag PromptHandler_new '''') =
     ''<|system|>\<newline>You are a helpful assistant. Be helpful but brief.<|end|>\<newline><|user|>\<newline><|end|>\<newline><|assistant|>\<newline>'' \<and>
   \<not> m_is_first_prompt (snd (GetPromptWithTag PromptHandler_new ''Hello'')) \<and>
   fst (GetPromptWithTag (snd (GetPromptWithTag PromptHandler_new ''Hello'')) '''') =
     ''<|user|>\<newline><|end|>\<newline><|assistant|>\<newline>''"
proof -
  have fresh: "m_is_first_prompt PromptHandler_new"
    by (simp add: PromptHandler_new_def)
  have used: "\<not> m_is_first_prompt (snd (GetPromptWithTag PromptHandler_new ''Hello''))"
    by (simp add: GetPromptWithTag_new)
  have first: "c_system_prompt @ c_prompt_prefix @ c_end_of_prompt @ c_assistant_header =
      ''<|system|>\<newline>You are a helpful assistant. Be helpful but brief.<|end|>\<newline><|user|>\<newline><|end|>\<newline><|assistant|>\<newline>''"
    by (simp add: c_system_prompt_def c_prompt_prefix_def c_end_of_prompt_def
          c_assistant_header_def)
  have later: "c_prompt_prefix @ c_end_of_prompt @ c_assistant_header =
      ''<|user|>\<newline><|end|>\<newline><|assistant|>\<newline>''"
    by (simp add: c_prompt_prefix_def c_end_of_prompt_def c_assistant_header_def)
  from fresh empty_user_text [of PromptHandler_new]
  have a: "fst (GetPromptWithTag PromptHandler_new []) =
      c_system_prompt @ c_prompt_prefix @ c_end_of_prompt @ c_assistant_header"
    by blast
  from used empty_user_text [of "snd (GetPromptWithTag PromptHandler_new ''Hello'')"]
  have b: "fst (GetPromptWithTag (snd (GetPromptWithTag PromptHandler_new ''Hello'')) []) =
      c_prompt_prefix @ c_end_of_prompt @ c_assistant_header"
    by blast
  from fresh used a [unfolded first] b [unfolded later]
  show ?thesis by blast
qed

text \<open>
  C8. The result of a call depends on the flag and the text only: on two objects with
  equal flags, the calls with the same text return equal strings and leave equal flags.
\<close>

theorem GetPromptWithTag_deterministic:
  "m_is_first_prompt h1 = m_is_first_prompt h2 \<Longrightarrow>
     fst (GetPromptWithTag h1 user_text) = fst (GetPromptWithTag h2 user_text) \<and>
     m_is_first_prompt (snd (GetPromptWithTag h1 user_text)) =
       m_is_first_prompt (snd (GetPromptWithTag h2 user_text))"
  by (simp add: GetPromptWithTag_def)

theorem GetPromptWithTag_deterministic_witness:
  "m_is_first_prompt (snd (GetPromptWithTag PromptHandler_new ''a'')) =
     m_is_first_prompt (snd (calls PromptHandler_new [''b'', ''c''])) \<and>
   fst (GetPromptWithTag (snd (GetPromptWithTag PromptHandler_new ''a'')) ''Hi'') =
     fst (GetPromptWithTag (snd (calls PromptHandler_new [''b'', ''c''])) ''Hi'') \<and>
   m_is_first_prompt
       (snd (GetPromptWithTag (snd (GetPromptWithTag PromptHandler_new ''a'')) ''Hi'')) =
     m_is_first_prompt
       (snd (GetPromptWithTag (snd (calls PromptHandler_new [''b'', ''c''])) ''Hi''))"
proof -
  have flags: "m_is_first_prompt (snd (GetPromptWithTag PromptHandler_new ''a'')) =
      m_is_first_prompt (snd (calls PromptHandler_new [''b'', ''c'']))"
    by (simp add: GetPromptWithTag_def PromptHandler_new_def)
  from flags GetPromptWithTag_deterministic [OF flags, of "''Hi''"]
  show ?thesis by blast
qed

text \<open>
  C9. \<open>GetPromptWithTag\<close> has no error case: for every object and every string it
  returns a string and an object, and the string is one of the two prompts, the one
  with the preamble or the one without, around the whole text.
\<close>

theorem GetPromptWithTag_total:
  "\<exists>out this'. GetPromptWithTag this user_text = (out, this') \<and>
     (out = c_system_prompt @ c_prompt_prefix @ user_text @ c_end_of_prompt @ c_assistant_header \<or>
      out = c_prompt_prefix @ user_text @ c_end_of_prompt @ c_assistant_header) \<and>
     length user_text + 31 \<le> length out"
proof (cases "m_is_first_prompt this")
  case True
  then show ?thesis
    by (simp add: GetPromptWithTag_first c_prompt_prefix_def c_end_of_prompt_def
          c_assistant_header_def)
next
  case False
  then show ?thesis
    by (simp add: GetPromptWithTag_later c_prompt_prefix_def c_end_of_prompt_def
          c_assistant_header_def)
qed

text \<open>
  C10. For every string \<open>user_text\<close>, the first call on a fresh object returns the
  constant \<open>c_system_prompt\<close> followed by what a call on an object whose flag is false
  returns for the same text.
\<close>

theorem first_call_is_preamble_then_later_call:
  "\<not> m_is_first_prompt this \<Longrightarrow>
     fst (GetPromptWithTag PromptHandler_new user_text) =
       c_system_prompt @ fst (GetPromptWithTag this user_text)"
  by (simp add: GetPromptWithTag_new GetPromptWithTag_later)

theorem first_call_is_preamble_then_later_call_witness:
  "\<not> m_is_first_prompt (snd (GetPromptWithTag PromptHandler_new ''Hello'')) \<and>
   fst (GetPromptWithTag PromptHandler_new ''Hi'') =
     c_system_prompt @ fst (GetPromptWithTag (snd (GetPromptWithTag PromptHandler_new ''Hello'')) ''Hi'')"
proof -
  have used: "\<not> m_is_first_prompt (snd (GetPromptWithTag PromptHandler_new ''Hello''))"
    by (simp add: GetPromptWithTag_new)
  from used first_call_is_preamble_then_later_call [OF used, of "''Hi''"]
  show ?thesis by blast
qed

end
